theory Spec2Isabelle
  imports Main "HOL-Library.Word" "HOL-Library.Finite_Map" "HOL-Library.Sublist"
begin

section \<open>The reconciliation engine of helper/envconfig\<close>

text \<open>
  A shallow embedding of \<^verbatim>\<open>helper/envconfig/aliyunlog_operation_wrapper.go\<close> and of the two
  conversion helpers of \<^verbatim>\<open>pkg/util/util.go\<close> that it uses. The remote control plane, the
  clock, the JSON encoder and the flag variables are not part of these two files; they
  enter the model as parameters (the records \<open>flags\<close> and \<open>env\<close>). Every function
  that touches the wrapper takes the wrapper state and returns it updated. The state
  carries, besides the fields of the Go struct, the state of the outside world and a log
  of the remote calls issued so far. Log lines and the fire-and-forget notifications of
  the event recorder do not influence any result and are left out.
\<close>

subsection \<open>Values\<close>

text \<open>
  A Go value of type \<^verbatim>\<open>interface{}\<close> as it occurs in an input-detail mapping:
  nil, a bool, a number, a string, a slice or a \<^verbatim>\<open>map[string]interface{}\<close>. No
  arithmetic is done on numbers by this code.
\<close>

datatype jval =
    JNil
  | JBool bool
  | JNum int
  | JStr string
  | JArr "jval list"
  | JObj "(string, jval) fmap"

text \<open>Indexing a Go map: an absent key yields the zero value, the nil interface.\<close>

definition index :: "(string, jval) fmap \<Rightarrow> string \<Rightarrow> jval" where
  "index m k = (case fmlookup m k of None \<Rightarrow> JNil | Some v \<Rightarrow> v)"

text \<open>
  A Go \<^verbatim>\<open>error\<close> value. \<open>SlsError\<close> is an \<^verbatim>\<open>*aliyunlog.Error\<close> with its HTTP status and
  its code; any other error is an \<open>OtherError\<close>. The selector \<open>Error\<close> is the string
  that the method \<^verbatim>\<open>Error()\<close> returns. The absent error (nil) is \<open>None\<close> of
  \<open>error option\<close>.
\<close>

datatype error =
    SlsError (HTTPCode: int) (Code: string) (Error: string)
  | OtherError (Error: string)

text \<open>\<^verbatim>\<open>aliyunlog.LogConfig\<close>, \<^verbatim>\<open>aliyunlog.OutputDetail\<close> and \<^verbatim>\<open>aliyunlog.MachineGroup\<close>.\<close>

record OutputDetail =
  ProjectName :: string
  LogStoreName :: string

record LogConfig =
  Name :: string
  LogSample :: string
  InputType :: string
  InputDetail :: jval
  OutputType :: string
  OutputDetail :: OutputDetail
  CreateTime :: nat
  LastModifyTime :: nat

record MachineGroup =
  MachineGroup_Name :: string
  MachineIDType :: string
  MachineIDList :: "string list"

definition InputTypeFile :: string where
  "InputTypeFile = ''file''"

definition OutputTypeLogService :: string where
  "OutputTypeLogService = ''LogService''"

definition MachineIDTypeUserDefined :: string where
  "MachineIDTypeUserDefined = ''userdefined''"

text \<open>\<^verbatim>\<open>aliyunlog.IndexKey\<close>, \<^verbatim>\<open>aliyunlog.IndexLine\<close> and \<^verbatim>\<open>aliyunlog.Index\<close>.\<close>

datatype IndexKey = IndexKey "string list" bool string bool

datatype IndexLine = IndexLine "string list" bool

datatype Index = Index "IndexLine option" "(string \<times> IndexKey) list"

text \<open>
  Modelled from the spec: the declaration of \<^verbatim>\<open>AliyunLogConfigSpec\<close> is not in the two
  source files. The record has the fields that the code reads, under the names the code
  uses; the nested struct \<^verbatim>\<open>config.LogtailConfig\<close> is flattened, so that
  \<^verbatim>\<open>config.LogtailConfig.InputType\<close> is \<open>LogtailConfig_InputType config\<close>. The two
  optional integers are pointers in Go: \<open>None\<close> is the nil pointer.
\<close>

record AliyunLogConfigSpec =
  Project :: string
  Logstore :: string
  ShardCount :: "int option"
  LifeCycle :: "int option"
  ProductCode :: string
  ProductLang :: string
  MachineGroups :: "string list"
  SimpleConfig :: bool
  LogtailConfig_ConfigName :: string
  LogtailConfig_InputType :: string
  LogtailConfig_LogtailConfig :: "(string, jval) fmap"

text \<open>
  Modelled from the spec: the flag variables of \<^verbatim>\<open>pkg/flags\<close> that the code dereferences
  (section 6 of the specification: max retry attempts per remote call, cache TTL in
  seconds, default machine group name, default region).
\<close>

record flags =
  LogOperationMaxRetryTimes :: int
  LogResourceCacheExpireSec :: int
  DefaultLogMachineGroup :: string
  DefaultRegion :: string

subsection \<open>Time\<close>

text \<open>
  An instant is a number of nanoseconds on the clock of the process. A
  \<^verbatim>\<open>time.Duration\<close> is a signed 64-bit count of nanoseconds: \<^verbatim>\<open>Time.Sub\<close> saturates at
  the two ends of that range and the product \<^verbatim>\<open>time.Second * time.Duration(n)\<close> wraps
  around.
\<close>

type_synonym Time = int

type_synonym Duration = int

definition minDuration :: Duration where
  "minDuration = - (2 ^ 63)"

definition maxDuration :: Duration where
  "maxDuration = 2 ^ 63 - 1"

definition time_Sub :: "Time \<Rightarrow> Time \<Rightarrow> Duration" where
  "time_Sub t u =
     (let d = t - u
      in if d < minDuration then minDuration
         else if maxDuration < d then maxDuration
         else d)"

definition Millisecond :: Duration where
  "Millisecond = 1000000"

definition Second :: Duration where
  "Second = 1000000000"

definition mul_Duration :: "Duration \<Rightarrow> int \<Rightarrow> Duration" where
  "mul_Duration d n = sint ((word_of_int d :: 64 word) * word_of_int n)"

subsection \<open>The outside world\<close>

text \<open>
  The remote calls in the order of the client interface, then the managed-product call
  \<^verbatim>\<open>CreateProductLogstore\<close> of the package. A value of this type is one entry of the call
  log, with the arguments of the call.
\<close>

datatype call =
    CheckProjectExist string
  | CreateProject string string
  | CheckLogstoreExist string string
  | CreateLogStore string string int int bool int
  | CreateIndex string string Index
  | CheckMachineGroupExist string string
  | CreateMachineGroup string MachineGroup
  | GetConfig string string
  | UpdateConfig string LogConfig
  | CreateConfig string LogConfig
  | GetAppliedMachineGroups string string
  | ApplyConfigToMachineGroup string string string
  | CreateProductLogstore string string string string string

text \<open>
  Everything the code calls outside the two source files, over a world of type \<open>'w\<close>:
  the methods of \<^verbatim>\<open>aliyunlog.ClientInterface\<close> (each returns its Go results and the next
  world), \<^verbatim>\<open>CreateProductLogstore\<close>, \<^verbatim>\<open>aliyunlog.AddNecessaryInputConfigField\<close>,
  \<^verbatim>\<open>json.Marshal\<close> and \<^verbatim>\<open>json.Unmarshal\<close> into a map, \<^verbatim>\<open>time.Now\<close> and \<^verbatim>\<open>time.Sleep\<close>.
\<close>

record 'w env =
  sdk_CheckProjectExist :: "string \<Rightarrow> 'w \<Rightarrow> (bool \<times> error option) \<times> 'w"
  sdk_CreateProject :: "string \<Rightarrow> string \<Rightarrow> 'w \<Rightarrow> (unit \<times> error option) \<times> 'w"
  sdk_CheckLogstoreExist :: "string \<Rightarrow> string \<Rightarrow> 'w \<Rightarrow> (bool \<times> error option) \<times> 'w"
  sdk_CreateLogStore ::
    "string \<Rightarrow> string \<Rightarrow> int \<Rightarrow> int \<Rightarrow> bool \<Rightarrow> int \<Rightarrow> 'w \<Rightarrow> (unit \<times> error option) \<times> 'w"
  sdk_CreateIndex :: "string \<Rightarrow> string \<Rightarrow> Index \<Rightarrow> 'w \<Rightarrow> (unit \<times> error option) \<times> 'w"
  sdk_CheckMachineGroupExist :: "string \<Rightarrow> string \<Rightarrow> 'w \<Rightarrow> (bool \<times> error option) \<times> 'w"
  sdk_CreateMachineGroup :: "string \<Rightarrow> MachineGroup \<Rightarrow> 'w \<Rightarrow> (unit \<times> error option) \<times> 'w"
  sdk_GetConfig :: "string \<Rightarrow> string \<Rightarrow> 'w \<Rightarrow> (LogConfig option \<times> error option) \<times> 'w"
  sdk_UpdateConfig :: "string \<Rightarrow> LogConfig \<Rightarrow> 'w \<Rightarrow> (unit \<times> error option) \<times> 'w"
  sdk_CreateConfig :: "string \<Rightarrow> LogConfig \<Rightarrow> 'w \<Rightarrow> (unit \<times> error option) \<times> 'w"
  sdk_GetAppliedMachineGroups ::
    "string \<Rightarrow> string \<Rightarrow> 'w \<Rightarrow> (string list \<times> error option) \<times> 'w"
  sdk_ApplyConfigToMachineGroup ::
    "string \<Rightarrow> string \<Rightarrow> string \<Rightarrow> 'w \<Rightarrow> (unit \<times> error option) \<times> 'w"
  pop_CreateProductLogstore ::
    "string \<Rightarrow> string \<Rightarrow> string \<Rightarrow> string \<Rightarrow> string \<Rightarrow> 'w \<Rightarrow> (unit \<times> error option) \<times> 'w"
  sdk_AddNecessaryInputConfigField :: "(string, jval) fmap \<Rightarrow> (string, jval) fmap"
  json_Marshal :: "jval \<Rightarrow> string \<times> error option"
  json_Unmarshal :: "string \<Rightarrow> (string, jval) fmap \<times> error option"
  time_Now :: "'w \<Rightarrow> Time"
  time_Sleep :: "Duration \<Rightarrow> 'w \<Rightarrow> 'w"

subsection \<open>The wrapper\<close>

text \<open>
  The struct \<^verbatim>\<open>operationWrapper\<close>: its default project and its two cache maps. The client
  and the lock of the Go struct are replaced by the world the client talks to and by the
  log of the calls made through it (sequential execution of one pass).
\<close>

record 'w operationWrapper =
  o_project :: string
  logstoreCacheMap :: "(string, Time) fmap"
  configCacheMap :: "(string, Time) fmap"
  world :: 'w
  calls :: "call list"

text \<open>One remote call: the world answers and the call is appended to the log.\<close>

definition invoke ::
  "call \<Rightarrow> ('w \<Rightarrow> ('r \<times> error option) \<times> 'w) \<Rightarrow> 'w operationWrapper
     \<Rightarrow> ('r \<times> error option) \<times> 'w operationWrapper" where
  "invoke c f s =
     (case f (world s) of (r, w') \<Rightarrow> (r, s\<lparr>world := w', calls := calls s @ [c]\<rparr>))"

definition Sleep :: "'w env \<Rightarrow> Duration \<Rightarrow> 'w operationWrapper \<Rightarrow> 'w operationWrapper" where
  "Sleep env d s = s\<lparr>world := time_Sleep env d (world s)\<rparr>"

text \<open>\<^verbatim>\<open>time.Since(t)\<close> is \<^verbatim>\<open>time.Now().Sub(t)\<close>.\<close>

definition time_Since :: "'w env \<Rightarrow> 'w \<Rightarrow> Time \<Rightarrow> Duration" where
  "time_Since env w t = time_Sub (time_Now env w) t"

subsection \<open>The existence cache\<close>

definition logstoreCacheExists ::
  "flags \<Rightarrow> 'w env \<Rightarrow> string \<Rightarrow> string \<Rightarrow> 'w operationWrapper
     \<Rightarrow> bool \<times> 'w operationWrapper" where
  "logstoreCacheExists fl env project logstore s =
     (case fmlookup (logstoreCacheMap s) (project @ ''@@'' @ logstore) of
        Some lastUpdateTime \<Rightarrow>
          if time_Since env (world s) lastUpdateTime
               < mul_Duration Second (LogResourceCacheExpireSec fl)
          then (True, s) else (False, s)
      | None \<Rightarrow> (False, s))"

definition addLogstoreCache ::
  "'w env \<Rightarrow> string \<Rightarrow> string \<Rightarrow> 'w operationWrapper \<Rightarrow> 'w operationWrapper" where
  "addLogstoreCache env project logstore s =
     s\<lparr>logstoreCacheMap :=
         fmupd (project @ ''@@'' @ logstore) (time_Now env (world s)) (logstoreCacheMap s)\<rparr>"


definition addConfigCache ::
  "'w env \<Rightarrow> string \<Rightarrow> string \<Rightarrow> 'w operationWrapper \<Rightarrow> 'w operationWrapper" where
  "addConfigCache env project config s =
     s\<lparr>configCacheMap :=
         fmupd (project @ ''@@'' @ config) (time_Now env (world s)) (configCacheMap s)\<rparr>"

definition removeConfigCache ::
  "string \<Rightarrow> string \<Rightarrow> 'w operationWrapper \<Rightarrow> 'w operationWrapper" where
  "removeConfigCache project config s =
     s\<lparr>configCacheMap := fmdrop (project @ ''@@'' @ config) (configCacheMap s)\<rparr>"

subsection \<open>Bounded retry\<close>

text \<open>
  The source repeats one loop at every remote call site:
  \<^verbatim>\<open>for i := 0; i < *flags.LogOperationMaxRetryTimes; i++ { r, err = call(); if err != nil { onErr } else { onOk; break } }\<close>.
  \<open>retryLoop n call onErr onOk cur s\<close> is that loop with \<open>n\<close> iterations left; \<open>cur\<close>
  holds the values that the variables \<open>r\<close> and \<open>err\<close> have before the next iteration, so
  a loop that does not run leaves them as they were. \<open>onErr\<close> is the sleep of the call
  site (or nothing), \<open>onOk\<close> what the site does before \<^verbatim>\<open>break\<close>.
\<close>

primrec retryLoop ::
  "nat \<Rightarrow> ('s \<Rightarrow> ('r \<times> error option) \<times> 's) \<Rightarrow> ('s \<Rightarrow> 's) \<Rightarrow> ('s \<Rightarrow> 's)
     \<Rightarrow> 'r \<times> error option \<Rightarrow> 's \<Rightarrow> ('r \<times> error option) \<times> 's" where
  "retryLoop 0 call onErr onOk cur s = (cur, s)"
| "retryLoop (Suc n) call onErr onOk cur s =
     (case call s of
        ((r, Some e), s1) \<Rightarrow> retryLoop n call onErr onOk (r, Some e) (onErr s1)
      | ((r, None), s1) \<Rightarrow> ((r, None), onOk s1))"

text \<open>The number of iterations of a loop bounded by the flag.\<close>

definition maxRetry :: "flags \<Rightarrow> nat" where
  "maxRetry fl = nat (LogOperationMaxRetryTimes fl)"

subsection \<open>Helpers of pkg/util\<close>

definition DeepCopy :: "'w env \<Rightarrow> (string, jval) fmap \<Rightarrow> (string, jval) fmap option" where
  "DeepCopy env src =
     (case json_Marshal env (JObj src) of
        (buf, Some e) \<Rightarrow> None
      | (buf, None) \<Rightarrow>
          (case json_Unmarshal env buf of
             (dst, Some e) \<Rightarrow> None
           | (dst, None) \<Rightarrow> Some dst))"

definition InterfaceToString :: "jval \<Rightarrow> string \<times> bool" where
  "InterfaceToString val = (case val of JStr strVal \<Rightarrow> (strVal, True) | _ \<Rightarrow> ([], False))"

definition InterfaceToJSONString :: "'w env \<Rightarrow> jval \<Rightarrow> string \<times> error option" where
  "InterfaceToJSONString env val = (case json_Marshal env val of (b, err) \<Rightarrow> (b, err))"

subsection \<open>Provisioning\<close>

definition createDefaultK8SIndex :: Index where
  "createDefaultK8SIndex =
     (let token = ['' '', [CHR 0x0A], [CHR 0x09], [CHR 0x0D], '','', '';'', ''['', '']'', ''{'', ''}'',
                   ''('', '')'', ''&'', ''^'', ''*'', ''#'', ''@'', ''~'', ''='', ''<'', ''>'', ''/'',
                   [CHR 0x5C], ''?'', '':'', [CHR 0x27], [CHR 0x22]];
          normalIndexKey = IndexKey token False ''text'' True
      in Index (Some (IndexLine token False))
           (map (\<lambda>k. (k, normalIndexKey))
              [''__tag__:__hostname__'', ''__tag__:__path__'', ''__tag__:_container_ip_'',
               ''__tag__:_container_name_'', ''__tag__:_image_name_'', ''__tag__:_namespace_'',
               ''__tag__:_pod_name_'', ''__tag__:_pod_uid_'', ''_container_ip_'',
               ''_container_name_'', ''_image_name_'', ''_namespace_'', ''_pod_name_'',
               ''_pod_uid_'', ''_source_'']))"

text \<open>
  \<^verbatim>\<open>addNecessaryInputConfigField\<close> dereferences the pointer that \<^verbatim>\<open>DeepCopy\<close> returns; when
  \<^verbatim>\<open>DeepCopy\<close> returns nil the dereference panics, which is \<open>None\<close> here.
\<close>

definition addNecessaryInputConfigField ::
  "'w env \<Rightarrow> (string, jval) fmap \<Rightarrow> (string, jval) fmap option" where
  "addNecessaryInputConfigField env inputConfigDetail =
     (case DeepCopy env inputConfigDetail of
        None \<Rightarrow> None
      | Some inputConfigDetailCopy \<Rightarrow>
          Some (sdk_AddNecessaryInputConfigField env inputConfigDetailCopy))"

text \<open>
  The functions below take a \<^verbatim>\<open>config\<close> argument in Go only to label notifications; the
  model leaves that argument out.
\<close>

definition createProductLogstore ::
  "flags \<Rightarrow> 'w env \<Rightarrow> string \<Rightarrow> string \<Rightarrow> string \<Rightarrow> string \<Rightarrow> 'w operationWrapper
     \<Rightarrow> error option \<times> 'w operationWrapper" where
  "createProductLogstore fl env project logstore product lang s =
     (case invoke (CreateProductLogstore (DefaultRegion fl) project logstore product lang)
             (pop_CreateProductLogstore env (DefaultRegion fl) project logstore product lang) s of
        ((_, Some err), s1) \<Rightarrow> (Some err, s1)
      | ((_, None), s1) \<Rightarrow> (None, addLogstoreCache env project logstore s1))"

definition makesureProjectExist ::
  "flags \<Rightarrow> 'w env \<Rightarrow> string \<Rightarrow> 'w operationWrapper \<Rightarrow> error option \<times> 'w operationWrapper" where
  "makesureProjectExist fl env project s =
     (case retryLoop (maxRetry fl)
             (invoke (CheckProjectExist project) (sdk_CheckProjectExist env project))
             (Sleep env (1000 * Millisecond)) id (False, None) s of
        ((ok, err), s1) \<Rightarrow>
          if ok then (None, s1)
          else
            (case retryLoop (maxRetry fl)
                    (invoke
                       (CreateProject project
                          ''k8s log project, created by alibaba cloud log controller'')
                       (sdk_CreateProject env project
                          ''k8s log project, created by alibaba cloud log controller''))
                    (Sleep env (1000 * Millisecond)) id ((), err) s1 of
               ((_, err), s2) \<Rightarrow> (err, s2)))"

text \<open>Lines 248 to 258 of the source: the retention and the shard count of a new logstore.\<close>

definition logstore_ttl :: "int \<Rightarrow> int" where
  "logstore_ttl lifeCycle = (let ttl = 180 in if lifeCycle > 0 then lifeCycle else ttl)"

definition logstore_shardCount :: "int \<Rightarrow> int" where
  "logstore_shardCount shardCount =
     (let shardCount = (if shardCount \<le> 0 then 2 else shardCount)
      in if shardCount > 10 then 10 else shardCount)"

definition makesureLogstoreExist ::
  "flags \<Rightarrow> 'w env \<Rightarrow> string \<Rightarrow> string \<Rightarrow> int \<Rightarrow> int \<Rightarrow> string \<Rightarrow> string
     \<Rightarrow> 'w operationWrapper \<Rightarrow> error option \<times> 'w operationWrapper" where
  "makesureLogstoreExist fl env project logstore shardCount lifeCycle product lang s =
     (case logstoreCacheExists fl env project logstore s of
        (cached, s0) \<Rightarrow>
          if cached then (None, s0)
          else if length product > 0 then
            createProductLogstore fl env project logstore product
              (if length lang = 0 then ''cn'' else lang) s0
          else if prefix ''audit-'' logstore \<and> length logstore = 39 then
            createProductLogstore fl env project logstore ''k8s-audit'' ''cn'' s0
          else
            (case (if project \<noteq> o_project s0 then makesureProjectExist fl env project s0
                   else (None, s0)) of
               (Some err, s1) \<Rightarrow> (Some err, s1)
             | (None, s1) \<Rightarrow>
                 (case retryLoop (maxRetry fl)
                         (invoke (CheckLogstoreExist project logstore)
                            (sdk_CheckLogstoreExist env project logstore))
                         (Sleep env (100 * Millisecond)) id (False, None) s1 of
                    ((ok, err), s2) \<Rightarrow>
                      if ok then (None, addLogstoreCache env project logstore s2)
                      else
                        (let ttl = logstore_ttl lifeCycle;
                             shardCount = logstore_shardCount shardCount
                         in case retryLoop (maxRetry fl)
                                   (invoke (CreateLogStore project logstore ttl shardCount True 32)
                                      (sdk_CreateLogStore env project logstore ttl shardCount
                                         True 32))
                                   (Sleep env (100 * Millisecond))
                                   (addLogstoreCache env project logstore) ((), err) s2 of
                              ((_, Some err), s3) \<Rightarrow> (Some err, s3)
                            | ((_, None), s3) \<Rightarrow>
                                (case retryLoop (maxRetry fl)
                                        (invoke
                                           (CreateIndex project logstore createDefaultK8SIndex)
                                           (sdk_CreateIndex env project logstore
                                              createDefaultK8SIndex))
                                        (Sleep env (100 * Millisecond)) id ((), None)
                                        (Sleep env Second s3) of
                                   (_, s4) \<Rightarrow> (None, s4))))))"

text \<open>Lines 356 to 368: the machine group is created, with the retry loop of every call site.\<close>

definition makesureMachineGroupExist_create ::
  "flags \<Rightarrow> 'w env \<Rightarrow> string \<Rightarrow> string \<Rightarrow> error option \<Rightarrow> 'w operationWrapper
     \<Rightarrow> (unit \<times> error option) \<times> 'w operationWrapper" where
  "makesureMachineGroupExist_create fl env project machineGroup err s =
     (let m = \<lparr>MachineGroup_Name = machineGroup,
               MachineIDType = MachineIDTypeUserDefined,
               MachineIDList = [machineGroup]\<rparr>
      in retryLoop (maxRetry fl)
           (invoke (CreateMachineGroup project m) (sdk_CreateMachineGroup env project m))
           (Sleep env (100 * Millisecond)) id ((), err) s)"

definition makesureMachineGroupExist ::
  "flags \<Rightarrow> 'w env \<Rightarrow> string \<Rightarrow> string \<Rightarrow> 'w operationWrapper
     \<Rightarrow> error option \<times> 'w operationWrapper" where
  "makesureMachineGroupExist fl env project machineGroup s =
     (case retryLoop (maxRetry fl)
             (invoke (CheckMachineGroupExist project machineGroup)
                (sdk_CheckMachineGroupExist env project machineGroup))
             (Sleep env (100 * Millisecond)) id (False, None) s of
        ((ok, err), s1) \<Rightarrow>
          if ok then (None, s1)
          else
            (case makesureMachineGroupExist_create fl env project machineGroup err s1 of
               ((_, err), s2) \<Rightarrow> (err, s2)))"

subsection \<open>Reconciling one config\<close>

definition checkFileConfigChanged ::
  "'w env \<Rightarrow> string \<Rightarrow> string \<Rightarrow> string \<Rightarrow> string \<Rightarrow> (string, jval) fmap \<Rightarrow> bool" where
  "checkFileConfigChanged env filePath filePattern includeEnv includeLabel serverConfigDetail =
     (let serverFilePath = fst (InterfaceToString (index serverConfigDetail ''logPath''));
          serverFilePattern = fst (InterfaceToString (index serverConfigDetail ''filePattern''));
          serverIncludeEnv =
            fst (InterfaceToJSONString env (index serverConfigDetail ''dockerIncludeEnv''));
          serverIncludeLabel =
            fst (InterfaceToJSONString env (index serverConfigDetail ''dockerIncludeLabel''))
      in filePath \<noteq> serverFilePath \<or>
         filePattern \<noteq> serverFilePattern \<or>
         includeEnv \<noteq> serverIncludeEnv \<or>
         includeLabel \<noteq> serverIncludeLabel)"

text \<open>
  Lines 477 and 478: the error is an \<^verbatim>\<open>*aliyunlog.Error\<close> whose code is
  \<^verbatim>\<open>ConfigNotExist\<close>.
\<close>

definition isConfigNotExist :: "error \<Rightarrow> bool" where
  "isConfigNotExist err =
     (case err of
        SlsError httpCode code msg \<Rightarrow> code = ''ConfigNotExist''
      | OtherError msg \<Rightarrow> False)"

text \<open>
  \<^verbatim>\<open>updateConfigInner\<close> is one long function body. The model cuts it into its stages, in
  the order of the source, and \<open>updateConfigInner\<close> below puts them together.

  Lines 473 to 487, the fetch of the remote config. The triple holds the variables
  \<^verbatim>\<open>serverConfig\<close>, \<^verbatim>\<open>err\<close> and \<^verbatim>\<open>ok\<close>. The assignment \<^verbatim>\<open>ok = false\<close> of line 479 writes
  the variable that the type assertion of line 477 declares, not the \<^verbatim>\<open>ok\<close> of the
  function, which keeps its value.
\<close>

primrec updateConfigInner_fetch ::
  "nat \<Rightarrow> 'w env \<Rightarrow> string \<Rightarrow> string \<Rightarrow> LogConfig option \<times> error option \<times> bool
     \<Rightarrow> 'w operationWrapper
     \<Rightarrow> (LogConfig option \<times> error option \<times> bool) \<times> 'w operationWrapper" where
  "updateConfigInner_fetch 0 env project configName cur s = (cur, s)"
| "updateConfigInner_fetch (Suc n) env project configName cur s =
     (case invoke (GetConfig project configName) (sdk_GetConfig env project configName) s of
        ((serverConfig, Some err), s1) \<Rightarrow>
          if isConfigNotExist err then ((serverConfig, Some err, snd (snd cur)), s1)
          else updateConfigInner_fetch n env project configName
                 (serverConfig, Some err, snd (snd cur)) s1
      | ((serverConfig, None), s1) \<Rightarrow> ((serverConfig, None, True), s1))"

text \<open>
  Lines 497 to 538, the field-level patch of a file config. \<open>configDetail\<close> is the
  input detail of the remote config, \<open>err\<close> the error variable on entry.
\<close>

definition updateConfigInner_patch ::
  "flags \<Rightarrow> 'w env \<Rightarrow> AliyunLogConfigSpec \<Rightarrow> string \<Rightarrow> LogConfig \<Rightarrow> (string, jval) fmap
     \<Rightarrow> error option \<Rightarrow> 'w operationWrapper \<Rightarrow> error option \<times> 'w operationWrapper" where
  "updateConfigInner_patch fl env config project serverConfig configDetail err s =
     (let filePattern =
            fst (InterfaceToString (index (LogtailConfig_LogtailConfig config) ''filePattern''));
          logPath =
            fst (InterfaceToString (index (LogtailConfig_LogtailConfig config) ''logPath''));
          includeEnv =
            fst (InterfaceToJSONString env
                   (index (LogtailConfig_LogtailConfig config) ''dockerIncludeEnv''));
          includeLabel =
            fst (InterfaceToJSONString env
                   (index (LogtailConfig_LogtailConfig config) ''dockerIncludeLabel''))
      in if length filePattern > 0 \<and> length logPath > 0 then
           if checkFileConfigChanged env logPath filePattern includeEnv includeLabel configDetail
           then
             (let configDetail = fmupd ''logPath'' (JStr logPath) configDetail;
                  configDetail = fmupd ''filePattern'' (JStr filePattern) configDetail;
                  configDetail =
                    fmupd ''dockerIncludeEnv''
                      (index (LogtailConfig_LogtailConfig config) ''dockerIncludeEnv'')
                      configDetail;
                  configDetail =
                    (if fmlookup configDetail ''dockerIncludeLabel'' \<noteq> None then
                       if fmlookup (LogtailConfig_LogtailConfig config) ''dockerIncludeLabel''
                            \<noteq> None
                       then
                         fmupd ''dockerIncludeLabel''
                           (index (LogtailConfig_LogtailConfig config) ''dockerIncludeLabel'')
                           configDetail
                       else configDetail
                     else configDetail);
                  serverConfig = serverConfig\<lparr>InputDetail := JObj configDetail\<rparr>
              in case retryLoop (maxRetry fl)
                        (invoke (UpdateConfig project serverConfig)
                           (sdk_UpdateConfig env project serverConfig))
                        id id ((), err) s of
                   ((_, err), s1) \<Rightarrow> (err, s1))
           else (err, s)
         else (err, s))"

text \<open>The type assertion \<^verbatim>\<open>v.(map[string]interface{})\<close> in its two-result form.\<close>

definition assert_map :: "jval \<Rightarrow> (string, jval) fmap \<times> bool" where
  "assert_map v = (case v of JObj m \<Rightarrow> (m, True) | _ \<Rightarrow> (fmempty, False))"

text \<open>
  Lines 493 to 553: the config exists remotely. \<open>aliyunLogConfig\<close> is the config object
  built from the declared spec, \<open>serverConfig\<close> the fetched one. The type assertion of
  line 494 declares a second \<^verbatim>\<open>ok\<close>, here \<open>isMap\<close>.
\<close>

definition updateConfigInner_update ::
  "flags \<Rightarrow> 'w env \<Rightarrow> AliyunLogConfigSpec \<Rightarrow> string \<Rightarrow> LogConfig \<Rightarrow> LogConfig
     \<Rightarrow> error option \<Rightarrow> 'w operationWrapper \<Rightarrow> error option \<times> 'w operationWrapper" where
  "updateConfigInner_update fl env config project aliyunLogConfig serverConfig err s =
     (if SimpleConfig config then
        (case assert_map (InputDetail serverConfig) of
           (configDetail, isMap) \<Rightarrow>
             (case (if LogtailConfig_InputType config = ''file''
                       \<and> InputType serverConfig = ''file'' \<and> isMap
                    then updateConfigInner_patch fl env config project serverConfig
                           configDetail err s
                    else (err, s)) of
                (err, s1) \<Rightarrow>
                  if LogtailConfig_InputType config \<noteq> InputType serverConfig \<and> isMap then
                    (case retryLoop (maxRetry fl)
                            (invoke (UpdateConfig project aliyunLogConfig)
                               (sdk_UpdateConfig env project aliyunLogConfig))
                            id id ((), err) s1 of
                       ((_, err), s2) \<Rightarrow> (err, s2))
                  else (err, s1)))
      else (err, s))"

text \<open>Lines 556 to 561: the config is created.\<close>

definition updateConfigInner_create ::
  "flags \<Rightarrow> 'w env \<Rightarrow> string \<Rightarrow> LogConfig \<Rightarrow> error option \<Rightarrow> 'w operationWrapper
     \<Rightarrow> error option \<times> 'w operationWrapper" where
  "updateConfigInner_create fl env project aliyunLogConfig err s =
     (case retryLoop (maxRetry fl)
             (invoke (CreateConfig project aliyunLogConfig)
                (sdk_CreateConfig env project aliyunLogConfig))
             id id ((), err) s of
        ((_, err), s1) \<Rightarrow> (err, s1))"

text \<open>
  Lines 492 to 571: \<^verbatim>\<open>if ok && serverConfig != nil\<close> selects the update, anything else the
  creation.
\<close>

definition updateConfigInner_apply ::
  "flags \<Rightarrow> 'w env \<Rightarrow> AliyunLogConfigSpec \<Rightarrow> string \<Rightarrow> LogConfig
     \<Rightarrow> LogConfig option \<times> error option \<times> bool
     \<Rightarrow> 'w operationWrapper \<Rightarrow> error option \<times> 'w operationWrapper" where
  "updateConfigInner_apply fl env config project aliyunLogConfig fetched s =
     (case fetched of
        (serverConfig, err, ok) \<Rightarrow>
          if ok \<and> serverConfig \<noteq> None then
            updateConfigInner_update fl env config project aliyunLogConfig (the serverConfig)
              err s
          else updateConfigInner_create fl env project aliyunLogConfig err s)"

text \<open>Lines 578 to 583: the machine group of the pass.\<close>

definition updateConfigInner_machineGroup :: "flags \<Rightarrow> AliyunLogConfigSpec \<Rightarrow> string" where
  "updateConfigInner_machineGroup fl config =
     (if length (MachineGroups config) > 0 then hd (MachineGroups config)
      else DefaultLogMachineGroup fl)"

text \<open>
  Lines 585 to 603: when the config was fetched, the machine groups it is applied to
  are fetched and \<^verbatim>\<open>ok\<close> becomes the membership of the machine group of the pass. The
  result is the new value of \<^verbatim>\<open>ok\<close> and the error of the fetch, on which the function
  returns.
\<close>

definition updateConfigInner_applied ::
  "flags \<Rightarrow> 'w env \<Rightarrow> string \<Rightarrow> string \<Rightarrow> string \<Rightarrow> bool \<Rightarrow> 'w operationWrapper
     \<Rightarrow> (bool \<times> error option) \<times> 'w operationWrapper" where
  "updateConfigInner_applied fl env project configName machineGroup ok s =
     (if ok then
        (case retryLoop (maxRetry fl)
                (invoke (GetAppliedMachineGroups project configName)
                   (sdk_GetAppliedMachineGroups env project configName))
                id id ([], None) s of
           ((machineGroups, err), s1) \<Rightarrow> ((machineGroup \<in> set machineGroups, err), s1))
      else ((ok, None), s))"

text \<open>
  Lines 576 to 616: the machine group. \<open>ok\<close> is the variable of the function after the
  fetch. The result of \<^verbatim>\<open>makesureMachineGroupExist\<close> is assigned to the blank identifier.
  The membership that \<open>updateConfigInner_applied\<close> returns is not read: the loop of
  lines 605 to 610 has no condition around it.
\<close>

definition updateConfigInner_bind ::
  "flags \<Rightarrow> 'w env \<Rightarrow> AliyunLogConfigSpec \<Rightarrow> string \<Rightarrow> bool \<Rightarrow> 'w operationWrapper
     \<Rightarrow> error option \<times> 'w operationWrapper" where
  "updateConfigInner_bind fl env config project ok s =
     (let configName = LogtailConfig_ConfigName config;
          machineGroup = updateConfigInner_machineGroup fl config
      in case makesureMachineGroupExist fl env project machineGroup s of
           (_, s1) \<Rightarrow>
             (case updateConfigInner_applied fl env project configName machineGroup ok s1 of
                ((ok, Some err), s2) \<Rightarrow>
                  (Some (OtherError (''GetAppliedMachineGroups error, config : '' @ configName
                           @ '', error : '' @ Error err)), s2)
              | ((ok, None), s2) \<Rightarrow>
                  (case retryLoop (maxRetry fl)
                          (invoke (ApplyConfigToMachineGroup project configName machineGroup)
                             (sdk_ApplyConfigToMachineGroup env project configName
                                machineGroup))
                          id id ((), None) s2 of
                     ((_, Some err), s3) \<Rightarrow>
                       (Some (OtherError (''ApplyConfigToMachineGroup error, config : ''
                                @ configName @ '', machine group : '' @ machineGroup
                                @ '', error : '' @ Error err)), s3)
                   | ((_, None), s3) \<Rightarrow> (None, addConfigCache env project configName s3))))"

text \<open>
  The result of a call: it returns its Go result, or it panics (the only panic of the
  function is the nil dereference in \<^verbatim>\<open>addNecessaryInputConfigField\<close>).
\<close>

datatype 'a outcome = Panic | Return 'a

text \<open>Lines 424 to 427: the project of the pass.\<close>

definition updateConfigInner_project :: "AliyunLogConfigSpec \<Rightarrow> 'w operationWrapper \<Rightarrow> string" where
  "updateConfigInner_project config s =
     (let project = o_project s
      in if length (Project config) \<noteq> 0 then Project config else project)"

text \<open>
  Lines 443 to 456: the config object built from the declared spec; \<open>inputDetail\<close> is the
  result of \<^verbatim>\<open>addNecessaryInputConfigField\<close>. The fields that the struct literal does not
  name have their zero values.
\<close>

definition updateConfigInner_aliyunLogConfig ::
  "AliyunLogConfigSpec \<Rightarrow> string \<Rightarrow> (string, jval) fmap \<Rightarrow> LogConfig" where
  "updateConfigInner_aliyunLogConfig config project inputDetail =
     (let inputType = LogtailConfig_InputType config;
          inputType = (if length inputType = 0 then InputTypeFile else inputType)
      in \<lparr>Name = LogtailConfig_ConfigName config, LogSample = [], InputType = inputType,
          InputDetail = JObj inputDetail,
          OutputType = OutputTypeLogService,
          OutputDetail = \<lparr>ProjectName = project, LogStoreName = Logstore config\<rparr>,
          CreateTime = 0, LastModifyTime = 0\<rparr>)"

text \<open>
  Lines 460 to 616: fetch, then update or create, then bind. The error of the update or
  creation is wrapped and returned before the machine group is looked at.
\<close>

definition updateConfigInner_reconcile ::
  "flags \<Rightarrow> 'w env \<Rightarrow> AliyunLogConfigSpec \<Rightarrow> string \<Rightarrow> LogConfig \<Rightarrow> 'w operationWrapper
     \<Rightarrow> error option \<times> 'w operationWrapper" where
  "updateConfigInner_reconcile fl env config project aliyunLogConfig s =
     (case updateConfigInner_fetch (maxRetry fl) env project (LogtailConfig_ConfigName config)
             (None, None, False) s of
        (fetched, s1) \<Rightarrow>
          (case updateConfigInner_apply fl env config project aliyunLogConfig fetched s1 of
             (Some err, s2) \<Rightarrow>
               (Some (OtherError
                  (''UpdateConfig error, config : '' @ LogtailConfig_ConfigName config
                     @ '', error : '' @ Error err)), s2)
           | (None, s2) \<Rightarrow>
               updateConfigInner_bind fl env config project (snd (snd fetched)) s2))"

text \<open>Lines 428 to 437: the logstore of the pass is made sure of.\<close>

definition updateConfigInner_logstore ::
  "flags \<Rightarrow> 'w env \<Rightarrow> AliyunLogConfigSpec \<Rightarrow> 'w operationWrapper
     \<Rightarrow> error option \<times> 'w operationWrapper" where
  "updateConfigInner_logstore fl env config s =
     (let project = updateConfigInner_project config s;
          logstore = Logstore config;
          shardCount = (case ShardCount config of None \<Rightarrow> 0 | Some c \<Rightarrow> c);
          lifeCycle = (case LifeCycle config of None \<Rightarrow> 0 | Some c \<Rightarrow> c)
      in makesureLogstoreExist fl env project logstore shardCount lifeCycle
           (ProductCode config) (ProductLang config) s)"

definition updateConfigInner ::
  "flags \<Rightarrow> 'w env \<Rightarrow> AliyunLogConfigSpec \<Rightarrow> 'w operationWrapper
     \<Rightarrow> error option outcome \<times> 'w operationWrapper" where
  "updateConfigInner fl env config s =
     (let project = updateConfigInner_project config s
      in case updateConfigInner_logstore fl env config s of
           (Some err, s1) \<Rightarrow>
             (Return (Some (OtherError
                (''Create logconfig error when update config, config : ''
                   @ LogtailConfig_ConfigName config @ '', error : '' @ Error err))), s1)
         | (None, s1) \<Rightarrow>
             (case addNecessaryInputConfigField env (LogtailConfig_LogtailConfig config) of
                None \<Rightarrow> (Panic, s1)
              | Some inputDetail \<Rightarrow>
                  (case updateConfigInner_reconcile fl env config project
                          (updateConfigInner_aliyunLogConfig config project inputDetail) s1 of
                     (err, s2) \<Rightarrow> (Return err, s2))))"

definition updateConfig ::
  "flags \<Rightarrow> 'w env \<Rightarrow> AliyunLogConfigSpec \<Rightarrow> 'w operationWrapper
     \<Rightarrow> error option outcome \<times> 'w operationWrapper" where
  "updateConfig fl env config s = updateConfigInner fl env config s"

subsection \<open>Call logs\<close>

text \<open>
  \<open>issues P s s'\<close>: the call log of \<open>s'\<close> is the log of \<open>s\<close> followed by calls that all
  satisfy \<open>P\<close>.
\<close>

definition issues :: "(call \<Rightarrow> bool) \<Rightarrow> 'w operationWrapper \<Rightarrow> 'w operationWrapper \<Rightarrow> bool" where
  "issues P s s' = (\<exists>new. calls s' = calls s @ new \<and> list_all P new)"

fun isUpdateConfig :: "call \<Rightarrow> bool" where
  "isUpdateConfig (UpdateConfig project config) = True"
| "isUpdateConfig c = False"

subsection \<open>A scripted client\<close>

text \<open>
  A test double for the outside world, used to run the functions on concrete inputs. Its
  world is the list of the calls it has received and a clock. The script \<open>answer\<close> maps
  the calls received so far and the present call to a reply; each method returns the
  components of the reply that it has in Go. Sleeping advances the clock. The encoder of
  the double renders nil, booleans and strings and collapses everything else; its decoder
  yields the empty map.
\<close>

record reply =
  reply_ok :: bool
  reply_err :: "error option"
  reply_config :: "LogConfig option"
  reply_groups :: "string list"

definition succeed :: reply where
  "succeed = \<lparr>reply_ok = True, reply_err = None, reply_config = None, reply_groups = []\<rparr>"

definition failWith :: "error \<Rightarrow> reply" where
  "failWith e = \<lparr>reply_ok = False, reply_err = Some e, reply_config = None, reply_groups = []\<rparr>"

type_synonym mock = "call list \<times> Time"

definition mock_call :: "(call list \<Rightarrow> call \<Rightarrow> reply) \<Rightarrow> call \<Rightarrow> mock \<Rightarrow> reply \<times> mock" where
  "mock_call answer c w = (answer (fst w) c, (fst w @ [c], snd w))"

definition mock_do ::
  "(call list \<Rightarrow> call \<Rightarrow> reply) \<Rightarrow> call \<Rightarrow> mock \<Rightarrow> (unit \<times> error option) \<times> mock" where
  "mock_do answer c w = (case mock_call answer c w of (r, w') \<Rightarrow> (((), reply_err r), w'))"

definition mock_check ::
  "(call list \<Rightarrow> call \<Rightarrow> reply) \<Rightarrow> call \<Rightarrow> mock \<Rightarrow> (bool \<times> error option) \<times> mock" where
  "mock_check answer c w =
     (case mock_call answer c w of (r, w') \<Rightarrow> ((reply_ok r, reply_err r), w'))"

definition mock_Marshal :: "jval \<Rightarrow> string \<times> error option" where
  "mock_Marshal v =
     (case v of
        JNil \<Rightarrow> (''null'', None)
      | JBool b \<Rightarrow> (if b then ''true'' else ''false'', None)
      | JStr x \<Rightarrow> ([CHR 0x22] @ x @ [CHR 0x22], None)
      | _ \<Rightarrow> (''{}'', None))"

definition mockEnv :: "(call list \<Rightarrow> call \<Rightarrow> reply) \<Rightarrow> mock env" where
  "mockEnv answer =
     \<lparr>sdk_CheckProjectExist = (\<lambda>p. mock_check answer (CheckProjectExist p)),
      sdk_CreateProject = (\<lambda>p d. mock_do answer (CreateProject p d)),
      sdk_CheckLogstoreExist = (\<lambda>p l. mock_check answer (CheckLogstoreExist p l)),
      sdk_CreateLogStore = (\<lambda>p l t n a m. mock_do answer (CreateLogStore p l t n a m)),
      sdk_CreateIndex = (\<lambda>p l i. mock_do answer (CreateIndex p l i)),
      sdk_CheckMachineGroupExist = (\<lambda>p g. mock_check answer (CheckMachineGroupExist p g)),
      sdk_CreateMachineGroup = (\<lambda>p m. mock_do answer (CreateMachineGroup p m)),
      sdk_GetConfig =
        (\<lambda>p c w. case mock_call answer (GetConfig p c) w of
                   (r, w') \<Rightarrow> ((reply_config r, reply_err r), w')),
      sdk_UpdateConfig = (\<lambda>p c. mock_do answer (UpdateConfig p c)),
      sdk_CreateConfig = (\<lambda>p c. mock_do answer (CreateConfig p c)),
      sdk_GetAppliedMachineGroups =
        (\<lambda>p c w. case mock_call answer (GetAppliedMachineGroups p c) w of
                   (r, w') \<Rightarrow> ((reply_groups r, reply_err r), w')),
      sdk_ApplyConfigToMachineGroup =
        (\<lambda>p c g. mock_do answer (ApplyConfigToMachineGroup p c g)),
      pop_CreateProductLogstore =
        (\<lambda>r p l pr la. mock_do answer (CreateProductLogstore r p l pr la)),
      sdk_AddNecessaryInputConfigField = (\<lambda>m. m),
      json_Marshal = mock_Marshal,
      json_Unmarshal = (\<lambda>buf. (fmempty, None)),
      time_Now = snd,
      time_Sleep = (\<lambda>d w. (fst w, snd w + d))\<rparr>"

definition flags0 :: flags where
  "flags0 =
     \<lparr>LogOperationMaxRetryTimes = 3, LogResourceCacheExpireSec = 600,
      DefaultLogMachineGroup = ''k8s-group'', DefaultRegion = ''cn-hangzhou''\<rparr>"

definition wrapper0 :: "mock operationWrapper" where
  "wrapper0 =
     \<lparr>o_project = ''k8s-log'', logstoreCacheMap = fmempty, configCacheMap = fmempty,
      world = ([], 0), calls = []\<rparr>"


text \<open>
  The four fields that \<^verbatim>\<open>checkFileConfigChanged\<close> compares are equal in the declared input
  detail \<open>declared\<close> and in the remote one: the two strings as \<^verbatim>\<open>InterfaceToString\<close> reads
  them, the two filters as \<^verbatim>\<open>InterfaceToJSONString\<close> renders them.
\<close>

definition fileFieldsEqual :: "'w env \<Rightarrow> (string, jval) fmap \<Rightarrow> (string, jval) fmap \<Rightarrow> bool" where
  "fileFieldsEqual env declared remote =
     (fst (InterfaceToString (index declared ''logPath''))
        = fst (InterfaceToString (index remote ''logPath''))
      \<and> fst (InterfaceToString (index declared ''filePattern''))
        = fst (InterfaceToString (index remote ''filePattern''))
      \<and> fst (InterfaceToJSONString env (index declared ''dockerIncludeEnv''))
        = fst (InterfaceToJSONString env (index remote ''dockerIncludeEnv''))
      \<and> fst (InterfaceToJSONString env (index declared ''dockerIncludeLabel''))
        = fst (InterfaceToJSONString env (index remote ''dockerIncludeLabel'')))"

text \<open>The value is a string that is not empty.\<close>

definition nonEmptyString :: "jval \<Rightarrow> bool" where
  "nonEmptyString v = (case v of JStr x \<Rightarrow> x \<noteq> [] | _ \<Rightarrow> False)"

text \<open>
  A remote side that is converged for the config \<open>cfg\<close> of logstore \<open>app\<close> in project
  \<open>k8s-log\<close>: the logstore and the machine group exist, the config is a file config with
  path \<open>/var/log\<close> and pattern \<open>*.log\<close>, and it is applied to the machine group
  \<open>k8s-group\<close>.
\<close>

definition remoteFileConfig :: LogConfig where
  "remoteFileConfig =
     \<lparr>Name = ''cfg'', LogSample = [], InputType = ''file'',
      InputDetail =
        JObj (fmupd ''logPath'' (JStr ''/var/log'')
               (fmupd ''filePattern'' (JStr ''*.log'')
                 (fmupd ''localStorage'' (JBool True) fmempty))),
      OutputType = ''LogService'',
      OutputDetail = \<lparr>ProjectName = ''k8s-log'', LogStoreName = ''app''\<rparr>,
      CreateTime = 1, LastModifyTime = 1\<rparr>"

definition answer_converged :: "call list \<Rightarrow> call \<Rightarrow> reply" where
  "answer_converged h c =
     (case c of
        GetConfig project configName \<Rightarrow> succeed\<lparr>reply_config := Some remoteFileConfig\<rparr>
      | GetAppliedMachineGroups project configName \<Rightarrow> succeed\<lparr>reply_groups := [''k8s-group'']\<rparr>
      | _ \<Rightarrow> succeed)"

text \<open>The declared spec that the converged remote side was made from.\<close>

definition fileSpec :: AliyunLogConfigSpec where
  "fileSpec =
     \<lparr>Project = [], Logstore = ''app'', ShardCount = None, LifeCycle = None,
      ProductCode = [], ProductLang = [], MachineGroups = [], SimpleConfig = True,
      LogtailConfig_ConfigName = ''cfg'', LogtailConfig_InputType = ''file'',
      LogtailConfig_LogtailConfig =
        fmupd ''logPath'' (JStr ''/var/log'') (fmupd ''filePattern'' (JStr ''*.log'') fmempty)\<rparr>"

text \<open>
  A declared spec without a file pattern whose path differs from the remote one.
\<close>

definition pathOnlySpec :: AliyunLogConfigSpec where
  "pathOnlySpec = fileSpec\<lparr>LogtailConfig_LogtailConfig := fmupd ''logPath'' (JStr ''/data'') fmempty\<rparr>"

text \<open>
  The state in which attempt number \<open>i + 1\<close> of a retry loop starts when the \<open>i\<close> attempts
  before it have failed: each failed attempt is followed by \<open>onErr\<close>.
\<close>

definition attemptState ::
  "('s \<Rightarrow> ('r \<times> error option) \<times> 's) \<Rightarrow> ('s \<Rightarrow> 's) \<Rightarrow> nat \<Rightarrow> 's \<Rightarrow> 's" where
  "attemptState call onErr i s = ((\<lambda>x. onErr (snd (call x))) ^^ i) s"


text \<open>An error as the remote side reports it: status 500, with its own text.\<close>

definition internalError :: error where
  "internalError = SlsError 500 ''InternalServerError'' ''internal server error''"

text \<open>
  The converged remote side, except that every call about the existence or the creation
  of a machine group fails.
\<close>

definition answer_group_down :: "call list \<Rightarrow> call \<Rightarrow> reply" where
  "answer_group_down h c =
     (case c of
        CheckMachineGroupExist project g \<Rightarrow> failWith internalError
      | CreateMachineGroup project m \<Rightarrow> failWith internalError
      | _ \<Rightarrow> answer_converged h c)"









section \<open>Properties\<close>

subsection \<open>Durations\<close>




subsection \<open>The existence cache\<close>



subsection \<open>Call logs\<close>

lemma issues_refl [simp]: "issues P s s"
  by (simp add: issues_def)

lemma issues_trans: "issues P s s1 \<Longrightarrow> issues P s1 s2 \<Longrightarrow> issues P s s2"
  by (auto simp: issues_def)

lemma issues_then_calls_eq: "issues P s s1 \<Longrightarrow> calls s2 = calls s1 \<Longrightarrow> issues P s s2"
  by (simp add: issues_def)

lemma issues_invoke: "issues P s s1 \<Longrightarrow> P c \<Longrightarrow> issues P s (snd (invoke c f s1))"
  by (auto simp: issues_def invoke_def split: prod.splits)

lemma calls_Sleep [simp]: "calls (Sleep env d s) = calls s"
  by (simp add: Sleep_def)

lemma calls_addLogstoreCache [simp]: "calls (addLogstoreCache env p l s) = calls s"
  by (simp add: addLogstoreCache_def)

lemma calls_addConfigCache [simp]: "calls (addConfigCache env p l s) = calls s"
  by (simp add: addConfigCache_def)

lemma issues_Sleep: "issues P s s1 \<Longrightarrow> issues P s (Sleep env d s1)"
  by (erule issues_then_calls_eq) simp

lemma issues_addLogstoreCache: "issues P s s1 \<Longrightarrow> issues P s (addLogstoreCache env p l s1)"
  by (erule issues_then_calls_eq) simp

lemma issues_addConfigCache: "issues P s s1 \<Longrightarrow> issues P s (addConfigCache env p l s1)"
  by (erule issues_then_calls_eq) simp

lemma issues_retry:
  assumes "issues P s s1" and c: "P c"
    and onErr: "\<And>x. calls (onErr x) = calls x"
    and onOk: "\<And>x. calls (onOk x) = calls x"
  shows "issues P s (snd (retryLoop n (invoke c f) onErr onOk cur s1))"
  using assms(1)
proof (induction n arbitrary: cur s1)
  case 0
  then show ?case by simp
next
  case (Suc n)
  obtain r e s2 where i: "invoke c f s1 = ((r, e), s2)"
    by (metis surj_pair)
  have i2: "issues P s s2"
    using issues_invoke [OF Suc.prems c, of f] i by simp
  show ?case
  proof (cases e)
    case None
    have "issues P s (onOk s2)" using i2 onOk by (rule issues_then_calls_eq)
    then show ?thesis using i None by simp
  next
    case (Some x)
    have "issues P s (onErr s2)" using i2 onErr by (rule issues_then_calls_eq)
    then have "issues P s (snd (retryLoop n (invoke c f) onErr onOk (r, Some x) (onErr s2)))"
      by (rule Suc.IH)
    then show ?thesis using i Some by simp
  qed
qed

lemma issues_if:
  "(c \<Longrightarrow> issues P s (snd a)) \<Longrightarrow> (\<not> c \<Longrightarrow> issues P s (snd b))
     \<Longrightarrow> issues P s (snd (if c then a else b))"
  by simp

lemma issues_case_option:
  "(x = None \<Longrightarrow> issues P s (snd a)) \<Longrightarrow> (\<And>y. x = Some y \<Longrightarrow> issues P s (snd (b y)))
     \<Longrightarrow> issues P s (snd (case x of None \<Rightarrow> a | Some y \<Rightarrow> b y))"
  by (cases x) simp_all

lemma issues_pair: "issues P s s1 \<Longrightarrow> issues P s (snd (e, s1))"
  by simp

lemma logstoreCacheExists_state [simp]: "snd (logstoreCacheExists fl env p l s) = s"
  by (simp add: logstoreCacheExists_def split: option.splits)

lemma issues_logstoreCacheExists:
  "issues P s s1 \<Longrightarrow> issues P s (snd (logstoreCacheExists fl env p l s1))"
  by simp

lemmas issues_intros =
  issues_if issues_case_option issues_pair issues_retry issues_Sleep issues_addLogstoreCache
  issues_addConfigCache issues_invoke issues_logstoreCacheExists

subsection \<open>Provisioning\<close>

lemma issues_createProductLogstore:
  assumes "issues P s s1"
    and "P (CreateProductLogstore (DefaultRegion fl) project logstore product lang)"
  shows "issues P s (snd (createProductLogstore fl env project logstore product lang s1))"
  unfolding createProductLogstore_def split_beta
  by (intro issues_intros assms)

lemma issues_makesureProjectExist:
  assumes "issues P s s1" and "P (CheckProjectExist project)"
    and "\<And>d. P (CreateProject project d)"
  shows "issues P s (snd (makesureProjectExist fl env project s1))"
  unfolding makesureProjectExist_def split_beta
  by (intro issues_intros assms) simp_all

lemma issues_makesureMachineGroupExist:
  assumes "issues P s s1" and "P (CheckMachineGroupExist project machineGroup)"
    and "\<And>m. P (CreateMachineGroup project m)"
  shows "issues P s (snd (makesureMachineGroupExist fl env project machineGroup s1))"
  unfolding makesureMachineGroupExist_def makesureMachineGroupExist_create_def split_beta Let_def
  by (intro issues_intros assms) simp_all

lemma issues_makesureLogstoreExist:
  assumes "issues P s s1"
    and "\<And>r pr la. P (CreateProductLogstore r project logstore pr la)"
    and "P (CheckProjectExist project)" and "\<And>d. P (CreateProject project d)"
    and "P (CheckLogstoreExist project logstore)"
    and "P (CreateLogStore project logstore (logstore_ttl lifeCycle)
              (logstore_shardCount shardCount) True 32)"
    and "\<And>i. P (CreateIndex project logstore i)"
  shows "issues P s
           (snd (makesureLogstoreExist fl env project logstore shardCount lifeCycle product lang s1))"
  unfolding makesureLogstoreExist_def split_beta Let_def
  by (intro issues_intros issues_createProductLogstore issues_makesureProjectExist assms)
    simp_all

subsection \<open>Shard count and retention of a new logstore\<close>





subsection \<open>Audit logstores\<close>

lemma createProductLogstore_calls:
  "calls (snd (createProductLogstore fl env project logstore product lang s)) =
     calls s @ [CreateProductLogstore (DefaultRegion fl) project logstore product lang]"
  by (simp add: createProductLogstore_def invoke_def split_beta split: option.splits)

text \<open>
  C8. For a logstore name with the prefix \<open>audit-\<close> and length 39, no declared product
  code and no valid cache entry, \<^verbatim>\<open>makesureLogstoreExist\<close> is the call of
  \<^verbatim>\<open>createProductLogstore\<close> with product \<open>k8s-audit\<close> and language \<open>cn\<close>, and the only
  remote call it adds to the log is \<^verbatim>\<open>CreateProductLogstore\<close>: neither
  \<^verbatim>\<open>CheckLogstoreExist\<close> nor \<^verbatim>\<open>CreateLogStore\<close> is issued.
\<close>

theorem audit_logstore_routing:
  assumes "prefix ''audit-'' logstore" and "length logstore = 39" and "product = []"
    and "\<not> fst (logstoreCacheExists fl env project logstore s)"
  shows "makesureLogstoreExist fl env project logstore shardCount lifeCycle product lang s
           = createProductLogstore fl env project logstore ''k8s-audit'' ''cn'' s
         \<and> calls (snd (makesureLogstoreExist fl env project logstore shardCount lifeCycle
                          product lang s))
           = calls s @ [CreateProductLogstore (DefaultRegion fl) project logstore
                          ''k8s-audit'' ''cn'']"
proof -
  have s: "snd (logstoreCacheExists fl env project logstore s) = s"
    by simp
  have "makesureLogstoreExist fl env project logstore shardCount lifeCycle product lang s
           = createProductLogstore fl env project logstore ''k8s-audit'' ''cn'' s"
    using assms s by (simp add: makesureLogstoreExist_def split_beta)
  then show ?thesis
    by (simp add: createProductLogstore_calls)
qed

theorem audit_logstore_routing_witness:
  "prefix ''audit-'' ''audit-cfc281c9c4ca548638a1aaa765d8f220d''
   \<and> length ''audit-cfc281c9c4ca548638a1aaa765d8f220d'' = 39
   \<and> \<not> fst (logstoreCacheExists flags0 (mockEnv (\<lambda>h c. succeed)) ''k8s-log''
              ''audit-cfc281c9c4ca548638a1aaa765d8f220d'' wrapper0)
   \<and> calls (snd (makesureLogstoreExist flags0 (mockEnv (\<lambda>h c. succeed)) ''k8s-log''
                    ''audit-cfc281c9c4ca548638a1aaa765d8f220d'' 0 0 [] [] wrapper0))
       = [CreateProductLogstore ''cn-hangzhou'' ''k8s-log''
            ''audit-cfc281c9c4ca548638a1aaa765d8f220d'' ''k8s-audit'' ''cn'']"
  using audit_logstore_routing [of "''audit-cfc281c9c4ca548638a1aaa765d8f220d''" "[]" flags0
      "mockEnv (\<lambda>h c. succeed)" "''k8s-log''" wrapper0 0 0 "[]"]
  by (simp add: logstoreCacheExists_def createProductLogstore_calls wrapper0_def flags0_def)

subsection \<open>The call log of a reconciliation\<close>

lemma issues_fetch:
  assumes "issues P s s1" and c: "P (GetConfig project configName)"
  shows "issues P s (snd (updateConfigInner_fetch n env project configName cur s1))"
  using assms(1)
proof (induction n arbitrary: cur s1)
  case 0
  then show ?case by simp
next
  case (Suc n)
  obtain r e s2 where
    i: "invoke (GetConfig project configName) (sdk_GetConfig env project configName) s1
          = ((r, e), s2)"
    by (metis surj_pair)
  have i2: "issues P s s2"
    using issues_invoke [OF Suc.prems c, of "sdk_GetConfig env project configName"] i by simp
  show ?case
  proof (cases e)
    case None
    then show ?thesis using i i2 by simp
  next
    case (Some x)
    have "issues P s (snd (updateConfigInner_fetch n env project configName
                             (r, Some x, snd (snd cur)) s2))"
      using i2 by (rule Suc.IH)
    then show ?thesis using i i2 Some by simp
  qed
qed

lemma issues_patch:
  assumes "issues P s s1" and "\<And>c. P (UpdateConfig project c)"
  shows "issues P s
           (snd (updateConfigInner_patch fl env config project serverConfig configDetail err s1))"
  unfolding updateConfigInner_patch_def split_beta Let_def
  by (intro issues_intros assms) simp_all

lemma issues_update:
  assumes "issues P s s1" and "\<And>c. P (UpdateConfig project c)"
  shows "issues P s
           (snd (updateConfigInner_update fl env config project aliyunLogConfig serverConfig
                   err s1))"
  unfolding updateConfigInner_update_def split_beta
  by (intro issues_intros issues_patch assms) simp_all

lemma issues_create:
  assumes "issues P s s1" and "P (CreateConfig project aliyunLogConfig)"
  shows "issues P s (snd (updateConfigInner_create fl env project aliyunLogConfig err s1))"
  unfolding updateConfigInner_create_def split_beta
  by (intro issues_intros assms) simp_all

lemma issues_applied:
  assumes "issues P s s1" and "P (GetAppliedMachineGroups project configName)"
  shows "issues P s
           (snd (updateConfigInner_applied fl env project configName machineGroup ok s1))"
  unfolding updateConfigInner_applied_def split_beta
  by (intro issues_intros assms) simp_all

lemma issues_bind:
  assumes "issues P s s1"
    and "\<And>g. P (CheckMachineGroupExist project g)" and "\<And>m. P (CreateMachineGroup project m)"
    and "\<And>c. P (GetAppliedMachineGroups project c)"
    and "\<And>c g. P (ApplyConfigToMachineGroup project c g)"
  shows "issues P s (snd (updateConfigInner_bind fl env config project ok s1))"
  unfolding updateConfigInner_bind_def split_beta Let_def
  by (intro issues_intros issues_applied issues_makesureMachineGroupExist assms) simp_all

text \<open>
  The config that the fetch ends with is one that \<^verbatim>\<open>GetConfig\<close> returned, or the one the
  variable held before the loop.
\<close>

lemma fetch_config_invariant:
  assumes "R (fst cur)"
    and "\<And>w. R (fst (fst (sdk_GetConfig env project configName w)))"
  shows "R (fst (fst (updateConfigInner_fetch n env project configName cur s)))"
  using assms(1)
proof (induction n arbitrary: cur s)
  case 0
  then show ?case by simp
next
  case (Suc n)
  obtain r e w' where g: "sdk_GetConfig env project configName (world s) = ((r, e), w')"
    by (metis surj_pair)
  have r: "R r" using assms(2) [of "world s"] g by simp
  show ?case
  proof (cases e)
    case None
    then show ?thesis using g r by (simp add: invoke_def)
  next
    case (Some x)
    have "R (fst (r, Some x, snd (snd cur)))" using r by simp
    from Suc.IH [OF this] show ?thesis using g r Some by (simp add: invoke_def)
  qed
qed

subsection \<open>When the patch does nothing\<close>

lemma checkFileConfigChanged_iff:
  "checkFileConfigChanged env
     (fst (InterfaceToString (index declared ''logPath'')))
     (fst (InterfaceToString (index declared ''filePattern'')))
     (fst (InterfaceToJSONString env (index declared ''dockerIncludeEnv'')))
     (fst (InterfaceToJSONString env (index declared ''dockerIncludeLabel''))) remote
   \<longleftrightarrow> \<not> fileFieldsEqual env declared remote"
  by (auto simp: checkFileConfigChanged_def fileFieldsEqual_def Let_def)

lemma nonEmptyString_iff: "nonEmptyString v \<longleftrightarrow> 0 < length (fst (InterfaceToString v))"
  by (cases v) (simp_all add: nonEmptyString_def InterfaceToString_def)

lemma patch_noop:
  assumes "fileFieldsEqual env (LogtailConfig_LogtailConfig config) configDetail
           \<or> \<not> nonEmptyString (index (LogtailConfig_LogtailConfig config) ''filePattern'')
           \<or> \<not> nonEmptyString (index (LogtailConfig_LogtailConfig config) ''logPath'')"
  shows "updateConfigInner_patch fl env config project serverConfig configDetail err s = (err, s)"
  using assms
  unfolding updateConfigInner_patch_def Let_def checkFileConfigChanged_iff nonEmptyString_iff
  by auto

lemma update_noop:
  assumes "LogtailConfig_InputType config = InputType serverConfig"
    and "fileFieldsEqual env (LogtailConfig_LogtailConfig config)
           (fst (assert_map (InputDetail serverConfig)))
         \<or> \<not> nonEmptyString (index (LogtailConfig_LogtailConfig config) ''filePattern'')
         \<or> \<not> nonEmptyString (index (LogtailConfig_LogtailConfig config) ''logPath'')"
  shows "updateConfigInner_update fl env config project aliyunLogConfig serverConfig err s
           = (err, s)"
  using assms(1) patch_noop [OF assms(2)]
  by (simp add: updateConfigInner_update_def split_beta)

lemma issues_apply_noop:
  assumes "issues P s s1" and "P (CreateConfig project aliyunLogConfig)"
    and "\<And>sc. fst fetched = Some sc \<Longrightarrow>
           updateConfigInner_update fl env config project aliyunLogConfig sc (fst (snd fetched)) s1
             = (fst (snd fetched), s1)"
  shows "issues P s (snd (updateConfigInner_apply fl env config project aliyunLogConfig fetched s1))"
proof (cases "snd (snd fetched) \<and> fst fetched \<noteq> None")
  case True
  then obtain sc where sc: "fst fetched = Some sc" by auto
  show ?thesis
    using True sc assms(3) [OF sc] assms(1)
    by (simp add: updateConfigInner_apply_def split_beta)
next
  case False
  have "issues P s (snd (updateConfigInner_create fl env project aliyunLogConfig
                           (fst (snd fetched)) s1))"
    using assms(1,2) by (rule issues_create)
  then show ?thesis using False by (auto simp: updateConfigInner_apply_def split_beta)
qed

lemma issues_reconcile_noop:
  assumes "issues P s s1"
    and "P (GetConfig project (LogtailConfig_ConfigName config))"
    and "P (CreateConfig project aliyunLogConfig)"
    and "\<And>g. P (CheckMachineGroupExist project g)" and "\<And>m. P (CreateMachineGroup project m)"
    and "\<And>c. P (GetAppliedMachineGroups project c)"
    and "\<And>c g. P (ApplyConfigToMachineGroup project c g)"
    and noop: "\<And>w sc err s2.
           fst (fst (sdk_GetConfig env project (LogtailConfig_ConfigName config) w)) = Some sc \<Longrightarrow>
           updateConfigInner_update fl env config project aliyunLogConfig sc err s2 = (err, s2)"
  shows "issues P s (snd (updateConfigInner_reconcile fl env config project aliyunLogConfig s1))"
proof -
  let ?f = "updateConfigInner_fetch (maxRetry fl) env project (LogtailConfig_ConfigName config)
              (None, None, False) s1"
  have f: "issues P s (snd ?f)"
    using assms(1,2) by (rule issues_fetch)
  have inv: "\<forall>sc. fst (fst ?f) = Some sc \<longrightarrow>
           (\<forall>err s2. updateConfigInner_update fl env config project aliyunLogConfig sc err s2
              = (err, s2))"
    by (rule fetch_config_invariant) (use noop in auto)
  have a: "issues P s (snd (updateConfigInner_apply fl env config project aliyunLogConfig
                              (fst ?f) (snd ?f)))"
    using f assms(3) by (rule issues_apply_noop) (use inv in blast)
  show ?thesis
    unfolding updateConfigInner_reconcile_def split_beta
    by (intro issues_intros issues_bind a assms)
qed

lemma issues_pass_noop:
  assumes "\<And>w sc alc err s2.
           fst (fst (sdk_GetConfig env (updateConfigInner_project config s)
                       (LogtailConfig_ConfigName config) w)) = Some sc \<Longrightarrow>
           updateConfigInner_update fl env config (updateConfigInner_project config s) alc sc err s2
             = (err, s2)"
  shows "issues (\<lambda>c. \<not> isUpdateConfig c) s (snd (updateConfigInner fl env config s))"
  unfolding updateConfigInner_def updateConfigInner_logstore_def split_beta Let_def
  by (intro issues_intros issues_makesureLogstoreExist issues_reconcile_noop assms) simp_all

lemma issues_no_update:
  assumes "issues (\<lambda>c. \<not> isUpdateConfig c) s s'"
  shows "\<exists>new. calls s' = calls s @ new \<and> (\<forall>project c. UpdateConfig project c \<notin> set new)"
proof -
  from assms obtain new where n: "calls s' = calls s @ new"
    and a: "list_all (\<lambda>c. \<not> isUpdateConfig c) new"
    by (auto simp: issues_def)
  from a have "\<forall>project c. UpdateConfig project c \<notin> set new"
    by (auto simp: list_all_iff)
  with n show ?thesis by blast
qed

text \<open>Evaluation of the functions on the scripted client.\<close>

lemmas run_simps =
  updateConfigInner_def updateConfigInner_logstore_def updateConfigInner_project_def updateConfigInner_aliyunLogConfig_def
  updateConfigInner_reconcile_def updateConfigInner_apply_def updateConfigInner_update_def
  updateConfigInner_create_def updateConfigInner_patch_def updateConfigInner_bind_def
  updateConfigInner_applied_def updateConfigInner_machineGroup_def
  makesureLogstoreExist_def makesureProjectExist_def makesureMachineGroupExist_def
  makesureMachineGroupExist_create_def
  createProductLogstore_def logstoreCacheExists_def addLogstoreCache_def addConfigCache_def
  addNecessaryInputConfigField_def DeepCopy_def checkFileConfigChanged_def
  InterfaceToString_def InterfaceToJSONString_def index_def assert_map_def isConfigNotExist_def
  logstore_ttl_def logstore_shardCount_def maxRetry_def invoke_def Sleep_def time_Since_def
  mockEnv_def mock_check_def mock_do_def mock_call_def mock_Marshal_def succeed_def failWith_def
  flags0_def wrapper0_def InputTypeFile_def OutputTypeLogService_def
  MachineIDTypeUserDefined_def eval_nat_numeral Let_def

subsection \<open>An unchanged file config\<close>

text \<open>
  C4. The declared input type is the file type, and every config that \<^verbatim>\<open>GetConfig\<close> may
  return for the config name has the file type and agrees with the declared input detail
  on the four compared fields. Then the pass issues no \<^verbatim>\<open>UpdateConfig\<close> call, whatever
  else happens in it.
\<close>

theorem unchanged_file_config_no_update:
  assumes "LogtailConfig_InputType config = ''file''"
    and "\<And>w sc. fst (fst (sdk_GetConfig env (updateConfigInner_project config s)
                              (LogtailConfig_ConfigName config) w)) = Some sc \<Longrightarrow>
           InputType sc = ''file''
           \<and> fileFieldsEqual env (LogtailConfig_LogtailConfig config)
                (fst (assert_map (InputDetail sc)))"
  shows "\<exists>new. calls (snd (updateConfigInner fl env config s)) = calls s @ new
           \<and> (\<forall>project c. UpdateConfig project c \<notin> set new)"
proof (rule issues_no_update, rule issues_pass_noop)
  fix w sc alc err s2
  assume "fst (fst (sdk_GetConfig env (updateConfigInner_project config s)
                      (LogtailConfig_ConfigName config) w)) = Some sc"
  from assms(2) [OF this] assms(1)
  show "updateConfigInner_update fl env config (updateConfigInner_project config s) alc sc err s2
          = (err, s2)"
    by (intro update_noop) simp_all
qed

text \<open>
  An instance: the declared spec in simple config mode against the converged remote side.
  The pass fetches the config and goes on to the machine group without an update.
\<close>

theorem unchanged_file_config_no_update_witness:
  "SimpleConfig fileSpec \<and> LogtailConfig_InputType fileSpec = ''file''
   \<and> InputType remoteFileConfig = ''file''
   \<and> fileFieldsEqual (mockEnv answer_converged) (LogtailConfig_LogtailConfig fileSpec)
        (fst (assert_map (InputDetail remoteFileConfig)))
   \<and> calls (snd (updateConfigInner flags0 (mockEnv answer_converged) fileSpec wrapper0))
       = [CheckLogstoreExist ''k8s-log'' ''app'', GetConfig ''k8s-log'' ''cfg'',
          CheckMachineGroupExist ''k8s-log'' ''k8s-group'',
          GetAppliedMachineGroups ''k8s-log'' ''cfg'',
          ApplyConfigToMachineGroup ''k8s-log'' ''cfg'' ''k8s-group'']"
proof -
  have t: "LogtailConfig_InputType fileSpec = ''file''"
    by (simp add: fileSpec_def)
  have g: "InputType sc = ''file''
           \<and> fileFieldsEqual (mockEnv answer_converged) (LogtailConfig_LogtailConfig fileSpec)
                (fst (assert_map (InputDetail sc)))"
    if "fst (fst (sdk_GetConfig (mockEnv answer_converged)
                    (updateConfigInner_project fileSpec wrapper0)
                    (LogtailConfig_ConfigName fileSpec) w)) = Some sc" for w sc
    using that
    by (auto simp: run_simps answer_converged_def fileSpec_def remoteFileConfig_def
        fileFieldsEqual_def)
  show ?thesis
    using unchanged_file_config_no_update [OF t g, where fl = flags0]
    by (simp add: run_simps answer_converged_def fileSpec_def remoteFileConfig_def
        fileFieldsEqual_def)
qed

subsection \<open>The patch needs a pattern and a path\<close>

text \<open>
  C10. The declared input type is the file type and every config that \<^verbatim>\<open>GetConfig\<close> may
  return has the file type. If the declared \<open>filePattern\<close> or the declared \<open>logPath\<close> is
  absent, not a string or the empty string, the pass issues no \<^verbatim>\<open>UpdateConfig\<close> call,
  whatever the remote fields are.
\<close>

theorem patch_needs_pattern_and_path:
  assumes "LogtailConfig_InputType config = ''file''"
    and "\<And>w sc. fst (fst (sdk_GetConfig env (updateConfigInner_project config s)
                              (LogtailConfig_ConfigName config) w)) = Some sc \<Longrightarrow>
           InputType sc = ''file''"
    and "\<not> nonEmptyString (index (LogtailConfig_LogtailConfig config) ''filePattern'')
         \<or> \<not> nonEmptyString (index (LogtailConfig_LogtailConfig config) ''logPath'')"
  shows "\<exists>new. calls (snd (updateConfigInner fl env config s)) = calls s @ new
           \<and> (\<forall>project c. UpdateConfig project c \<notin> set new)"
proof (rule issues_no_update, rule issues_pass_noop)
  fix w sc alc err s2
  assume "fst (fst (sdk_GetConfig env (updateConfigInner_project config s)
                      (LogtailConfig_ConfigName config) w)) = Some sc"
  from assms(2) [OF this] assms(1,3)
  show "updateConfigInner_update fl env config (updateConfigInner_project config s) alc sc err s2
          = (err, s2)"
    by (intro update_noop) auto
qed

text \<open>
  An instance: the declared path \<open>/data\<close> differs from the remote path \<open>/var/log\<close>, but no
  pattern is declared, and the pass leaves the remote config as it is.
\<close>

theorem patch_needs_pattern_and_path_witness:
  "SimpleConfig pathOnlySpec \<and> LogtailConfig_InputType pathOnlySpec = ''file''
   \<and> InputType remoteFileConfig = ''file''
   \<and> \<not> nonEmptyString (index (LogtailConfig_LogtailConfig pathOnlySpec) ''filePattern'')
   \<and> \<not> fileFieldsEqual (mockEnv answer_converged) (LogtailConfig_LogtailConfig pathOnlySpec)
          (fst (assert_map (InputDetail remoteFileConfig)))
   \<and> calls (snd (updateConfigInner flags0 (mockEnv answer_converged) pathOnlySpec wrapper0))
       = [CheckLogstoreExist ''k8s-log'' ''app'', GetConfig ''k8s-log'' ''cfg'',
          CheckMachineGroupExist ''k8s-log'' ''k8s-group'',
          GetAppliedMachineGroups ''k8s-log'' ''cfg'',
          ApplyConfigToMachineGroup ''k8s-log'' ''cfg'' ''k8s-group'']"
proof -
  have t: "LogtailConfig_InputType pathOnlySpec = ''file''"
    by (simp add: pathOnlySpec_def fileSpec_def)
  have g: "InputType sc = ''file''"
    if "fst (fst (sdk_GetConfig (mockEnv answer_converged)
                    (updateConfigInner_project pathOnlySpec wrapper0)
                    (LogtailConfig_ConfigName pathOnlySpec) w)) = Some sc" for w sc
    using that
    by (auto simp: run_simps answer_converged_def pathOnlySpec_def fileSpec_def
        remoteFileConfig_def)
  have p: "\<not> nonEmptyString (index (LogtailConfig_LogtailConfig pathOnlySpec) ''filePattern'')
         \<or> \<not> nonEmptyString (index (LogtailConfig_LogtailConfig pathOnlySpec) ''logPath'')"
    by (simp add: pathOnlySpec_def fileSpec_def index_def nonEmptyString_def)
  show ?thesis
    using patch_needs_pattern_and_path [OF t g p, where fl = flags0]
    by (simp add: run_simps answer_converged_def pathOnlySpec_def fileSpec_def
        remoteFileConfig_def fileFieldsEqual_def nonEmptyString_def)
qed

subsection \<open>Binding a config that is already bound\<close>

text \<open>
  C1. The declared spec is reconciled twice against the converged remote side, in simple
  config mode. In both passes \<^verbatim>\<open>GetAppliedMachineGroups\<close> answers that the config is
  applied to the machine group of the pass, and in both passes the code goes on to call
  \<^verbatim>\<open>ApplyConfigToMachineGroup\<close>: the second pass, which finds the logstore in the cache
  and the config unchanged, still ends with that mutating call.
\<close>

theorem second_pass_binds_again:
  "calls (snd (updateConfigInner flags0 (mockEnv answer_converged) fileSpec wrapper0))
     = [CheckLogstoreExist ''k8s-log'' ''app'', GetConfig ''k8s-log'' ''cfg'',
        CheckMachineGroupExist ''k8s-log'' ''k8s-group'',
        GetAppliedMachineGroups ''k8s-log'' ''cfg'',
        ApplyConfigToMachineGroup ''k8s-log'' ''cfg'' ''k8s-group'']
   \<and> calls (snd (updateConfigInner flags0 (mockEnv answer_converged) fileSpec
                    (snd (updateConfigInner flags0 (mockEnv answer_converged) fileSpec wrapper0))))
     = calls (snd (updateConfigInner flags0 (mockEnv answer_converged) fileSpec wrapper0))
       @ [GetConfig ''k8s-log'' ''cfg'',
          CheckMachineGroupExist ''k8s-log'' ''k8s-group'',
          GetAppliedMachineGroups ''k8s-log'' ''cfg'',
          ApplyConfigToMachineGroup ''k8s-log'' ''cfg'' ''k8s-group'']
   \<and> reply_groups (answer_converged [] (GetAppliedMachineGroups ''k8s-log'' ''cfg''))
     = [''k8s-group'']"
  by (simp add: run_simps answer_converged_def fileSpec_def remoteFileConfig_def
      mul_Duration_def Second_def time_Sub_def minDuration_def maxDuration_def)

subsection \<open>The retry loop\<close>

lemma attemptState_0 [simp]: "attemptState call onErr 0 s = s"
  by (simp add: attemptState_def)

lemma attemptState_Suc:
  "attemptState call onErr (Suc i) s = attemptState call onErr i (onErr (snd (call s)))"
  unfolding attemptState_def by (simp only: funpow_Suc_right o_apply)

lemma retryLoop_all_fail:
  assumes "\<forall>i<n. snd (fst (call (attemptState call onErr i s))) \<noteq> None"
  shows "retryLoop n call onErr onOk cur s =
           (if n = 0 then cur else fst (call (attemptState call onErr (n - 1) s)),
            attemptState call onErr n s)"
  using assms
proof (induction n arbitrary: cur s)
  case 0
  show ?case by simp
next
  case (Suc n)
  from Suc.prems have "snd (fst (call s)) \<noteq> None"
    by (metis attemptState_0 zero_less_Suc)
  then obtain r e s1 where c: "call s = ((r, Some e), s1)"
    by (metis not_None_eq prod.collapse)
  have "\<forall>i<n. snd (fst (call (attemptState call onErr i (onErr s1)))) \<noteq> None"
    using Suc.prems c by (auto simp: attemptState_Suc)
  from Suc.IH [OF this, of "(r, Some e)"] show ?case
    using c by (cases n) (simp_all add: attemptState_Suc)
qed


lemma calls_invoke [simp]: "calls (snd (invoke c f s)) = calls s @ [c]"
  by (simp add: invoke_def split_beta)


subsection \<open>The bound of the retries and the error that comes back\<close>




subsection \<open>What the fetch leads to\<close>

lemma issues_any: "issues (\<lambda>c. True) s s' \<longleftrightarrow> (\<exists>new. calls s' = calls s @ new)"
  by (simp add: issues_def list_all_iff)

lemma retryLoop_first_call:
  assumes "0 < n" and "\<And>x. calls (onErr x) = calls x" and "\<And>x. calls (onOk x) = calls x"
  shows "\<exists>rest. calls (snd (retryLoop n (invoke c f) onErr onOk cur s)) = calls s @ c # rest"
proof -
  from assms(1) obtain m where n: "n = Suc m" by (cases n) auto
  obtain r e s1 where i: "invoke c f s = ((r, e), s1)"
    by (metis surj_pair)
  have c1: "calls s1 = calls s @ [c]"
    using calls_invoke [of c f s] i by simp
  show ?thesis
  proof (cases e)
    case None
    then show ?thesis using n i c1 assms(3) by simp
  next
    case (Some x)
    have "issues (\<lambda>c. True) (onErr s1)
            (snd (retryLoop m (invoke c f) onErr onOk (r, Some x) (onErr s1)))"
      by (rule issues_retry) (simp_all add: assms)
    then obtain new where
      "calls (snd (retryLoop m (invoke c f) onErr onOk (r, Some x) (onErr s1)))
         = calls (onErr s1) @ new"
      by (auto simp: issues_any)
    then show ?thesis using n i c1 Some assms(2) by simp
  qed
qed







lemma pass_is_reconcile:
  assumes "updateConfigInner_logstore fl env config s = (None, s1)"
    and "addNecessaryInputConfigField env (LogtailConfig_LogtailConfig config) = Some inputDetail"
  shows "updateConfigInner fl env config s =
           (Return (fst (updateConfigInner_reconcile fl env config
                           (updateConfigInner_project config s)
                           (updateConfigInner_aliyunLogConfig config
                              (updateConfigInner_project config s) inputDetail) s1)),
            snd (updateConfigInner_reconcile fl env config
                   (updateConfigInner_project config s)
                   (updateConfigInner_aliyunLogConfig config
                      (updateConfigInner_project config s) inputDetail) s1))"
  using assms by (simp add: updateConfigInner_def split_beta Let_def)



subsection \<open>A change of the input type\<close>





subsection \<open>A machine group that cannot be made sure of\<close>

lemma retryLoop_succeeds:
  assumes "0 < n" and "\<And>w. snd (fst (f w)) = None"
  shows "snd (fst (retryLoop n (invoke c f) onErr onOk cur s)) = None"
proof -
  from assms(1) obtain m where n: "n = Suc m" by (cases n) auto
  obtain r w' where f: "f (world s) = ((r, None), w')"
    using assms(2) [of "world s"] by (metis prod.collapse)
  show ?thesis
    by (simp add: n invoke_def f)
qed

lemma retryLoop_never_ok:
  assumes "\<forall>w. \<not> fst (fst (f w))"
  shows "\<not> fst (fst (retryLoop n (invoke c f) onErr onOk (False, e) s))"
proof (induction n arbitrary: e s)
  case 0
  show ?case by simp
next
  case (Suc n)
  obtain x w' where f: "f (world s) = ((False, x), w')"
    using assms by (metis prod.collapse)
  show ?case
    using Suc.IH by (cases x) (simp_all add: invoke_def f)
qed

lemma retryLoop_always_fails:
  assumes "0 < n" and "\<forall>w. snd (fst (f w)) \<noteq> None"
  shows "snd (fst (retryLoop n (invoke c f) onErr onOk cur s)) \<noteq> None"
proof -
  have af: "\<forall>i<n. snd (fst (invoke c f (attemptState (invoke c f) onErr i s))) \<noteq> None"
    using assms(2) by (simp add: invoke_def split_beta)
  have "fst (retryLoop n (invoke c f) onErr onOk cur s)
          = fst (invoke c f (attemptState (invoke c f) onErr (n - 1) s))"
    using retryLoop_all_fail [OF af, of onOk cur] assms(1) by simp
  moreover have "snd (fst (invoke c f (attemptState (invoke c f) onErr (n - 1) s))) \<noteq> None"
    using af assms(1) by simp
  ultimately show ?thesis by simp
qed

lemma makesureMachineGroupExist_fails:
  assumes "0 < maxRetry fl"
    and "\<forall>w. \<not> fst (fst (sdk_CheckMachineGroupExist env project machineGroup w))"
    and "\<forall>m w. snd (fst (sdk_CreateMachineGroup env project m w)) \<noteq> None"
  shows "fst (makesureMachineGroupExist fl env project machineGroup s) \<noteq> None"
proof -
  let ?ck = "retryLoop (maxRetry fl)
               (invoke (CheckMachineGroupExist project machineGroup)
                  (sdk_CheckMachineGroupExist env project machineGroup))
               (Sleep env (100 * Millisecond)) id (False, None) s"
  have nok: "\<not> fst (fst ?ck)"
    using assms(2) by (rule retryLoop_never_ok)
  have "snd (fst (makesureMachineGroupExist_create fl env project machineGroup
                    (snd (fst ?ck)) (snd ?ck))) \<noteq> None"
    unfolding makesureMachineGroupExist_create_def Let_def
    by (rule retryLoop_always_fails [OF assms(1)]) (use assms(3) in blast)
  then show ?thesis
    using nok by (simp add: makesureMachineGroupExist_def split_beta)
qed

lemma fetch_ok_no_error:
  assumes "\<not> snd (snd cur)"
  shows "snd (snd (fst (updateConfigInner_fetch n env project configName cur s)))
           \<longrightarrow> fst (snd (fst (updateConfigInner_fetch n env project configName cur s))) = None"
  using assms
proof (induction n arbitrary: cur s)
  case 0
  then show ?case by simp
next
  case (Suc n)
  obtain r e s1 where
    i: "invoke (GetConfig project configName) (sdk_GetConfig env project configName) s
          = ((r, e), s1)"
    by (metis surj_pair)
  show ?case
  proof (cases e)
    case None
    then show ?thesis using i by simp
  next
    case (Some x)
    have "\<not> snd (snd (r, Some x, snd (snd cur)))"
      using Suc.prems by simp
    from Suc.IH [OF this, of s1] show ?thesis
      using i Some Suc.prems by simp
  qed
qed

lemma patch_no_error:
  assumes "0 < maxRetry fl" and "\<forall>c w. snd (fst (sdk_UpdateConfig env project c w)) = None"
  shows "fst (updateConfigInner_patch fl env config project serverConfig configDetail None s)
           = None"
  using assms
  by (simp add: updateConfigInner_patch_def split_beta Let_def retryLoop_succeeds)

lemma update_no_error:
  assumes "0 < maxRetry fl" and "\<forall>c w. snd (fst (sdk_UpdateConfig env project c w)) = None"
  shows "fst (updateConfigInner_update fl env config project aliyunLogConfig serverConfig None s)
           = None"
  using assms patch_no_error [OF assms]
  by (simp add: updateConfigInner_update_def split_beta retryLoop_succeeds)

lemma create_no_error:
  assumes "0 < maxRetry fl" and "\<forall>c w. snd (fst (sdk_CreateConfig env project c w)) = None"
  shows "fst (updateConfigInner_create fl env project aliyunLogConfig err s) = None"
  using assms
  by (simp add: updateConfigInner_create_def split_beta retryLoop_succeeds)

lemma apply_no_error:
  assumes "0 < maxRetry fl" and "\<forall>c w. snd (fst (sdk_UpdateConfig env project c w)) = None"
    and "\<forall>c w. snd (fst (sdk_CreateConfig env project c w)) = None"
    and "snd (snd fetched) \<longrightarrow> fst (snd fetched) = None"
  shows "fst (updateConfigInner_apply fl env config project aliyunLogConfig fetched s) = None"
  using update_no_error [OF assms(1,2)] create_no_error [OF assms(1,3)] assms(4)
  by (auto simp: updateConfigInner_apply_def split_beta)

lemma bind_no_error:
  assumes "0 < maxRetry fl"
    and "\<forall>w. snd (fst (sdk_GetAppliedMachineGroups env project
                           (LogtailConfig_ConfigName config) w)) = None"
    and "\<forall>w. snd (fst (sdk_ApplyConfigToMachineGroup env project
                           (LogtailConfig_ConfigName config)
                           (updateConfigInner_machineGroup fl config) w)) = None"
  shows "fst (updateConfigInner_bind fl env config project ok s) = None"
  using assms
  by (simp add: updateConfigInner_bind_def updateConfigInner_applied_def split_beta Let_def
      retryLoop_succeeds)

lemma bind_applies:
  assumes "0 < maxRetry fl"
    and "\<forall>w. snd (fst (sdk_GetAppliedMachineGroups env project
                           (LogtailConfig_ConfigName config) w)) = None"
  shows "ApplyConfigToMachineGroup project (LogtailConfig_ConfigName config)
           (updateConfigInner_machineGroup fl config)
         \<in> set (calls (snd (updateConfigInner_bind fl env config project ok s)))"
proof -
  let ?name = "LogtailConfig_ConfigName config"
  let ?g = "updateConfigInner_machineGroup fl config"
  let ?a = "updateConfigInner_applied fl env project ?name ?g ok
              (snd (makesureMachineGroupExist fl env project ?g s))"
  have e: "snd (fst ?a) = None"
    using assms
    by (simp add: updateConfigInner_applied_def split_beta retryLoop_succeeds)
  obtain rest where
    "calls (snd (retryLoop (maxRetry fl)
                   (invoke (ApplyConfigToMachineGroup project ?name ?g)
                      (sdk_ApplyConfigToMachineGroup env project ?name ?g))
                   id id ((), None) (snd ?a)))
       = calls (snd ?a) @ ApplyConfigToMachineGroup project ?name ?g # rest"
    using retryLoop_first_call [OF assms(1), of id id] by (metis id_apply)
  then show ?thesis
    using e by (simp add: updateConfigInner_bind_def split_beta Let_def split: option.splits)
qed

text \<open>
  C2, as the code has it. The logstore stage of the pass has succeeded and the config
  object has been built; the calls that create or update the config, fetch the applied
  machine groups and apply the config succeed whenever they are made, and there is at
  least one attempt per call. Then the pass returns no error and it calls
  \<^verbatim>\<open>ApplyConfigToMachineGroup\<close>, whatever the machine group calls answer. This includes a
  remote side on which the machine group never exists and its creation always fails, so
  that \<^verbatim>\<open>makesureMachineGroupExist\<close> returns an error from every state: the pass drops that
  error and goes on.
\<close>

theorem machine_group_error_is_discarded:
  assumes "0 < maxRetry fl"
    and "updateConfigInner_logstore fl env config s = (None, s1)"
    and "addNecessaryInputConfigField env (LogtailConfig_LogtailConfig config) = Some inputDetail"
    and "project = updateConfigInner_project config s"
    and "machineGroup = updateConfigInner_machineGroup fl config"
    and "\<forall>c w. snd (fst (sdk_CreateConfig env project c w)) = None"
    and "\<forall>c w. snd (fst (sdk_UpdateConfig env project c w)) = None"
    and "\<forall>w. snd (fst (sdk_GetAppliedMachineGroups env project
                           (LogtailConfig_ConfigName config) w)) = None"
    and "\<forall>w. snd (fst (sdk_ApplyConfigToMachineGroup env project
                           (LogtailConfig_ConfigName config) machineGroup w)) = None"
  shows "fst (updateConfigInner fl env config s) = Return None
         \<and> ApplyConfigToMachineGroup project (LogtailConfig_ConfigName config) machineGroup
             \<in> set (calls (snd (updateConfigInner fl env config s)))
         \<and> ((\<forall>w. \<not> fst (fst (sdk_CheckMachineGroupExist env project machineGroup w)))
              \<and> (\<forall>m w. snd (fst (sdk_CreateMachineGroup env project m w)) \<noteq> None) \<longrightarrow>
            (\<forall>s'. fst (makesureMachineGroupExist fl env project machineGroup s') \<noteq> None))"
proof -
  let ?name = "LogtailConfig_ConfigName config"
  let ?alc = "updateConfigInner_aliyunLogConfig config project inputDetail"
  let ?f = "updateConfigInner_fetch (maxRetry fl) env project ?name (None, None, False) s1"
  let ?a = "updateConfigInner_apply fl env config project ?alc (fst ?f) (snd ?f)"
  have ok: "snd (snd (fst ?f)) \<longrightarrow> fst (snd (fst ?f)) = None"
    by (rule fetch_ok_no_error) simp
  have a: "fst ?a = None"
    using assms(1,7,6) ok by (rule apply_no_error)
  have r: "updateConfigInner_reconcile fl env config project ?alc s1
             = updateConfigInner_bind fl env config project (snd (snd (fst ?f))) (snd ?a)"
    using a by (simp add: updateConfigInner_reconcile_def split_beta)
  have b: "fst (updateConfigInner_bind fl env config project (snd (snd (fst ?f))) (snd ?a)) = None"
    using assms(1,8,9) unfolding assms(5) by (rule bind_no_error)
  have c: "ApplyConfigToMachineGroup project ?name machineGroup
             \<in> set (calls (snd (updateConfigInner_bind fl env config project
                                   (snd (snd (fst ?f))) (snd ?a))))"
    using assms(1,8) unfolding assms(5) by (rule bind_applies)
  have p: "updateConfigInner fl env config s =
             (Return (fst (updateConfigInner_reconcile fl env config project ?alc s1)),
              snd (updateConfigInner_reconcile fl env config project ?alc s1))"
    using pass_is_reconcile [OF assms(2,3)] by (simp add: assms(4))
  have g: "\<forall>s'. fst (makesureMachineGroupExist fl env project machineGroup s') \<noteq> None"
    if "\<forall>w. \<not> fst (fst (sdk_CheckMachineGroupExist env project machineGroup w))"
      and "\<forall>m w. snd (fst (sdk_CreateMachineGroup env project m w)) \<noteq> None"
    using makesureMachineGroupExist_fails [OF assms(1) that] by blast
  show ?thesis
    using b c g by (simp add: p r)
qed

text \<open>
  An instance: on the converged remote side whose machine group calls all fail,
  \<^verbatim>\<open>makesureMachineGroupExist\<close> returns an error, and the pass goes on to apply the config
  and returns no error.
\<close>

theorem machine_group_error_is_discarded_witness:
  "fst (updateConfigInner flags0 (mockEnv answer_group_down) fileSpec wrapper0) = Return None
   \<and> ApplyConfigToMachineGroup ''k8s-log'' ''cfg'' ''k8s-group''
       \<in> set (calls (snd (updateConfigInner flags0 (mockEnv answer_group_down) fileSpec wrapper0)))
   \<and> fst (makesureMachineGroupExist flags0 (mockEnv answer_group_down) ''k8s-log'' ''k8s-group''
            wrapper0) \<noteq> None"
proof -
  have n: "0 < maxRetry flags0"
    by (simp add: maxRetry_def flags0_def)
  have d: "addNecessaryInputConfigField (mockEnv answer_group_down)
             (LogtailConfig_LogtailConfig fileSpec) = Some fmempty"
    by (simp add: run_simps)
  have p: "''k8s-log'' = updateConfigInner_project fileSpec wrapper0"
    by (simp add: run_simps fileSpec_def)
  have m: "''k8s-group'' = updateConfigInner_machineGroup flags0 fileSpec"
    by (simp add: run_simps fileSpec_def)
  have l: "updateConfigInner_logstore flags0 (mockEnv answer_group_down) fileSpec wrapper0
             = (None, snd (updateConfigInner_logstore flags0 (mockEnv answer_group_down) fileSpec
                             wrapper0))"
    by (simp add: run_simps fileSpec_def answer_group_down_def answer_converged_def)
  have c1: "\<forall>c w. snd (fst (sdk_CreateConfig (mockEnv answer_group_down) ''k8s-log'' c w)) = None"
    and c2: "\<forall>c w. snd (fst (sdk_UpdateConfig (mockEnv answer_group_down) ''k8s-log'' c w)) = None"
    and c3: "\<forall>w. snd (fst (sdk_GetAppliedMachineGroups (mockEnv answer_group_down) ''k8s-log''
                             (LogtailConfig_ConfigName fileSpec) w)) = None"
    and c4: "\<forall>w. snd (fst (sdk_ApplyConfigToMachineGroup (mockEnv answer_group_down) ''k8s-log''
                             (LogtailConfig_ConfigName fileSpec) ''k8s-group'' w)) = None"
    and c5: "\<forall>w. \<not> fst (fst (sdk_CheckMachineGroupExist (mockEnv answer_group_down) ''k8s-log''
                               ''k8s-group'' w))"
    and c6: "\<forall>m w. snd (fst (sdk_CreateMachineGroup (mockEnv answer_group_down) ''k8s-log'' m w))
                      \<noteq> None"
    by (simp_all add: mockEnv_def mock_do_def mock_check_def mock_call_def answer_group_down_def
        answer_converged_def succeed_def failWith_def split_beta)
  show ?thesis
    using machine_group_error_is_discarded [OF n l d p m c1 c2 c3 c4] c5 c6
    by (simp add: fileSpec_def)
qed

text \<open>
  The claim as it is written fails. The same run, evaluated: the check and the creation
  of the machine group are tried three times each and fail, and the pass returns nil.
\<close>

theorem machine_group_failure_does_not_abort:
  "updateConfigInner flags0 (mockEnv answer_group_down) fileSpec wrapper0
     = (Return None, snd (updateConfigInner flags0 (mockEnv answer_group_down) fileSpec wrapper0))
   \<and> calls (snd (updateConfigInner flags0 (mockEnv answer_group_down) fileSpec wrapper0))
       = [CheckLogstoreExist ''k8s-log'' ''app'', GetConfig ''k8s-log'' ''cfg'']
         @ replicate 3 (CheckMachineGroupExist ''k8s-log'' ''k8s-group'')
         @ replicate 3 (CreateMachineGroup ''k8s-log''
                          \<lparr>MachineGroup_Name = ''k8s-group'', MachineIDType = ''userdefined'',
                           MachineIDList = [''k8s-group'']\<rparr>)
         @ [GetAppliedMachineGroups ''k8s-log'' ''cfg'',
            ApplyConfigToMachineGroup ''k8s-log'' ''cfg'' ''k8s-group'']
   \<and> fst (makesureMachineGroupExist flags0 (mockEnv answer_group_down) ''k8s-log''
            ''k8s-group'' wrapper0) = Some internalError"
  by (simp add: run_simps fileSpec_def answer_group_down_def answer_converged_def
      remoteFileConfig_def internalError_def)

end
